theory Spec2Isabelle
  imports Complex_Main "HOL-Library.Product_Lexorder" "HOL-Library.Sublist" "HOL-Library.Multiset"
begin

section \<open>Text: Python strings as lists of code points\<close>

text \<open>
  A Python \<open>str\<close> is a sequence of Unicode code points. The matching engine decomposes
  accented letters into a base letter and a combining mark (above U+00FF), so a text is a
  list of code points, not of bytes. \<open>cps\<close> turns an ASCII literal into a text.

  The Unicode tables used by \<open>unicodedata.normalize\<close>, \<open>str.lower\<close>, \<open>str.strip\<close> and
  the regular-expression classes \<open>\s\<close> and \<open>\d\<close> are written out for the code points
  U+0000 to U+00FF (Basic Latin and Latin-1 Supplement). Every other code point is
  treated as a caseless, non-space, non-digit character that is its own decomposition,
  which is what the tables say for the combining marks, the Greek mu and the fraction
  slash that the decomposition of a Latin-1 text produces.
\<close>

type_synonym ustring = "nat list"

definition cps :: "string \<Rightarrow> ustring" where
  "cps s = map of_char s"

definition isspace :: "nat \<Rightarrow> bool" where
  "isspace c = (c \<in> set [9, 10, 11, 12, 13, 28, 29, 30, 31, 32, 133, 160])"

definition isdigit :: "nat \<Rightarrow> bool" where
  "isdigit c = (48 \<le> c \<and> c \<le> 57)"

definition lower_cp :: "nat \<Rightarrow> nat" where
  "lower_cp c = (if (65 \<le> c \<and> c \<le> 90) \<or> (192 \<le> c \<and> c \<le> 222 \<and> c \<noteq> 215) then c + 32 else c)"

definition lower :: "ustring \<Rightarrow> ustring" where
  "lower t = map lower_cp t"

definition nfkd_table :: "(nat \<times> ustring) list" where
  "nfkd_table =
    [(160, [32]), (168, [32, 776]), (170, [97]), (175, [32, 772]), (178, [50]), (179, [51]),
     (180, [32, 769]), (181, [956]), (184, [32, 807]), (185, [49]), (186, [111]),
     (188, [49, 8260, 52]), (189, [49, 8260, 50]), (190, [51, 8260, 52]),
     (192, [65, 768]), (193, [65, 769]), (194, [65, 770]), (195, [65, 771]), (196, [65, 776]),
     (197, [65, 778]), (199, [67, 807]), (200, [69, 768]), (201, [69, 769]), (202, [69, 770]),
     (203, [69, 776]), (204, [73, 768]), (205, [73, 769]), (206, [73, 770]), (207, [73, 776]),
     (209, [78, 771]), (210, [79, 768]), (211, [79, 769]), (212, [79, 770]), (213, [79, 771]),
     (214, [79, 776]), (217, [85, 768]), (218, [85, 769]), (219, [85, 770]), (220, [85, 776]),
     (221, [89, 769]), (224, [97, 768]), (225, [97, 769]), (226, [97, 770]), (227, [97, 771]),
     (228, [97, 776]), (229, [97, 778]), (231, [99, 807]), (232, [101, 768]), (233, [101, 769]),
     (234, [101, 770]), (235, [101, 776]), (236, [105, 768]), (237, [105, 769]), (238, [105, 770]),
     (239, [105, 776]), (241, [110, 771]), (242, [111, 768]), (243, [111, 769]), (244, [111, 770]),
     (245, [111, 771]), (246, [111, 776]), (249, [117, 768]), (250, [117, 769]), (251, [117, 770]),
     (252, [117, 776]), (253, [121, 769]), (255, [121, 776])]"

definition nfkd_cp :: "nat \<Rightarrow> ustring" where
  "nfkd_cp c = (case map_of nfkd_table c of None \<Rightarrow> [c] | Some d \<Rightarrow> d)"

text \<open>
  \<open>unicodedata.normalize('NFKD', text)\<close>: each code point is replaced by its compatibility
  decomposition. A Latin-1 text holds no combining mark, and every mark a decomposition
  produces follows its base letter directly, so no canonical reordering takes place.
\<close>

definition nfkd :: "ustring \<Rightarrow> ustring" where
  "nfkd t = concat (map nfkd_cp t)"

subsection \<open>String methods\<close>

definition lstrip :: "ustring \<Rightarrow> ustring" where
  "lstrip t = dropWhile isspace t"

definition rstrip :: "ustring \<Rightarrow> ustring" where
  "rstrip t = rev (dropWhile isspace (rev t))"

definition strip :: "ustring \<Rightarrow> ustring" where
  "strip t = rstrip (lstrip t)"

definition startswith :: "ustring \<Rightarrow> ustring \<Rightarrow> bool" where
  "startswith t p = (take (length p) t = p)"

definition endswith :: "ustring \<Rightarrow> ustring \<Rightarrow> bool" where
  "endswith t p = (length p \<le> length t \<and> drop (length t - length p) t = p)"

text \<open>\<open>p in t\<close> for strings: \<open>p\<close> occurs in \<open>t\<close> as a contiguous block.\<close>

fun contains :: "ustring \<Rightarrow> ustring \<Rightarrow> bool" where
  "contains [] p = (p = [])"
| "contains (x # xs) p = (startswith (x # xs) p \<or> contains xs p)"

text \<open>\<open>t.replace(old, new)\<close> for a one-character \<open>old\<close>.\<close>

definition replace :: "nat \<Rightarrow> ustring \<Rightarrow> ustring \<Rightarrow> ustring" where
  "replace old new t = concat (map (\<lambda>c. if c = old then new else [c]) t)"

text \<open>
  \<open>t.split(sep, 1)\<close> when \<open>sep\<close> occurs in \<open>t\<close>: the parts before and after the first
  occurrence; \<open>None\<close> when \<open>sep\<close> does not occur (Python returns the one-element list).
\<close>

fun split_once :: "ustring \<Rightarrow> ustring \<Rightarrow> (ustring \<times> ustring) option" where
  "split_once [] sep = (if sep = [] then Some ([], []) else None)"
| "split_once (x # xs) sep =
     (if startswith (x # xs) sep then Some ([], drop (length sep) (x # xs))
      else (case split_once xs sep of None \<Rightarrow> None | Some (a, b) \<Rightarrow> Some (x # a, b)))"

subsection \<open>Regular expressions of the normalizer\<close>

text \<open>
  The eight patterns have one shape, \<open>\s*  OPEN  [^CLOSE]*  KEY  [^CLOSE]*  CLOSE\<close>, where
  KEY is a keyword or \<open>\d{4}\<close>. A match at the start of \<open>s\<close> takes the whole run of
  white space, then OPEN, then everything up to the first CLOSE, and needs KEY somewhere
  in between: neither starred class can cross a CLOSE, so the closing character of the
  match is the first one after OPEN. \<open>group_match\<close> gives the length of that match.
  The flag \<open>re.IGNORECASE\<close> is the \<open>lower\<close> in \<open>has_key\<close>.
\<close>

fun has_year :: "ustring \<Rightarrow> bool" where
  "has_year (a # b # c # d # rest) =
     ((isdigit a \<and> isdigit b \<and> isdigit c \<and> isdigit d) \<or> has_year (b # c # d # rest))"
| "has_year _ = False"

datatype key = Keyword string | Year

fun has_key :: "key \<Rightarrow> ustring \<Rightarrow> bool" where
  "has_key (Keyword w) body = contains (lower body) (cps w)"
| "has_key Year body = has_year body"

definition group_match :: "nat \<Rightarrow> nat \<Rightarrow> key \<Rightarrow> ustring \<Rightarrow> nat option" where
  "group_match opn cls k s =
     (let ws = takeWhile isspace s; r = dropWhile isspace s in
      case r of
        [] \<Rightarrow> None
      | x # r' \<Rightarrow>
          if x \<noteq> opn then None
          else (let body = takeWhile (\<lambda>c. c \<noteq> cls) r'; r'' = dropWhile (\<lambda>c. c \<noteq> cls) r' in
                case r'' of
                  [] \<Rightarrow> None
                | _ # _ \<Rightarrow> if has_key k body then Some (length ws + 1 + length body + 1) else None))"

text \<open>
  \<open>re.sub(pattern, '', text)\<close> for a pattern that never matches the empty string: scan
  from the left, delete the leftmost match and go on behind it.
\<close>

fun re_sub_del :: "(ustring \<Rightarrow> nat option) \<Rightarrow> ustring \<Rightarrow> ustring" where
  "re_sub_del m [] = []"
| "re_sub_del m (x # xs) =
     (case m (x # xs) of
        None \<Rightarrow> x # re_sub_del m xs
      | Some n \<Rightarrow> re_sub_del m (drop (n - 1) xs))"

text \<open>\<open>re.sub(r'\s+', ' ', text)\<close>: every maximal run of white space becomes one space.\<close>

function collapse_ws :: "ustring \<Rightarrow> ustring" where
  "collapse_ws [] = []"
| "collapse_ws (x # xs) =
     (if isspace x then 32 # collapse_ws (dropWhile isspace xs) else x # collapse_ws xs)"
  by pat_completeness auto
termination
  by (relation "measure length") (auto simp: le_imp_less_Suc length_dropWhile_le)

section \<open>Text normalizer\<close>

definition patterns_to_remove :: "(nat \<times> nat \<times> key) list" where
  "patterns_to_remove =
    [(40, 41, Keyword ''remaster''),
     (40, 41, Keyword ''remix''),
     (40, 41, Keyword ''edit''),
     (40, 41, Keyword ''version''),
     (40, 41, Keyword ''mix''),
     (40, 41, Year),
     (91, 93, Keyword ''remaster''),
     (91, 93, Year)]"

text \<open>
  The dictionary \<open>replacements\<close> in iteration order. The source's literal gives the key
  U+00FC twice (\<open>'ue'\<close>, then \<open>'u'\<close>): a Python dictionary keeps the first position and
  the last value.
\<close>

definition replacements :: "(nat \<times> ustring) list" where
  "replacements =
    [(38, cps ''and''), (43, cps ''and''),
     (228, cps ''ae''), (246, cps ''oe''), (252, cps ''u''), (223, cps ''ss''),
     (233, cps ''e''), (232, cps ''e''), (234, cps ''e''), (235, cps ''e''),
     (225, cps ''a''), (224, cps ''a''), (226, cps ''a''), (227, cps ''a''),
     (237, cps ''i''), (236, cps ''i''), (238, cps ''i''), (239, cps ''i''),
     (243, cps ''o''), (242, cps ''o''), (244, cps ''o''), (245, cps ''o''),
     (250, cps ''u''), (249, cps ''u''), (251, cps ''u'')]"

definition remove_patterns :: "ustring \<Rightarrow> ustring" where
  "remove_patterns t =
     foldl (\<lambda>t (opn, cls, k). re_sub_del (group_match opn cls k) t) t patterns_to_remove"

definition apply_replacements :: "ustring \<Rightarrow> ustring" where
  "apply_replacements t = foldl (\<lambda>t (old, new). replace old new t) t replacements"

definition normalize_text :: "ustring \<Rightarrow> ustring" where
  "normalize_text t =
     (if t = [] then []
      else strip (collapse_ws (apply_replacements (remove_patterns (strip (lower (nfkd t)))))))"

section \<open>Similarity scorer\<close>

text \<open>
  \<open>difflib.SequenceMatcher(None, a, b).ratio()\<close> is library code. The definitions of the
  matching engine take the ratio as a parameter \<open>ratio\<close>, so every general theorem holds
  for any ratio function. \<open>seq_ratio\<close> is the library's algorithm, used at concrete
  inputs: twice the total size of the matching blocks over the sum of the lengths, the
  blocks found by taking the longest common block (the one that starts earliest in \<open>a\<close>,
  then earliest in \<open>b\<close>) and recursing to its left and to its right. It is the library's
  result for a second sequence shorter than 200 elements (from there on the library
  also discards popular elements).
\<close>

fun common_prefix_len :: "ustring \<Rightarrow> ustring \<Rightarrow> nat" where
  "common_prefix_len (x # xs) (y # ys) = (if x = y then Suc (common_prefix_len xs ys) else 0)"
| "common_prefix_len _ _ = 0"

definition find_longest_match :: "ustring \<Rightarrow> ustring \<Rightarrow> nat \<times> nat \<times> nat" where
  "find_longest_match a b =
     foldl (\<lambda>(besti, bestj, bestsize) (i, j).
              let k = common_prefix_len (drop i a) (drop j b)
              in if k > bestsize then (i, j, k) else (besti, bestj, bestsize))
           (0, 0, 0)
           (concat (map (\<lambda>i. map (\<lambda>j. (i, j)) [0..<length b]) [0..<length a]))"

function matching_size :: "ustring \<Rightarrow> ustring \<Rightarrow> nat" where
  "matching_size a b =
     (case find_longest_match a b of
        (i, j, k) \<Rightarrow>
          if k = 0 then 0
          else matching_size (take i a) (take j b) + k
               + matching_size (drop (i + k) a) (drop (j + k) b))"
  by pat_completeness auto
termination
proof -
  have aux: "0 < k \<longrightarrow> i < length a \<and> j < length b"
    if "foldl (\<lambda>(besti, bestj, bestsize) (i, j).
              let k = common_prefix_len (drop i a) (drop j b)
              in if k > bestsize then (i, j, k) else (besti, bestj, bestsize)) acc ps = (i, j, k)"
      and "\<forall>p \<in> set ps. fst p < length a \<and> snd p < length b"
      and "case acc of (i0, j0, k0) \<Rightarrow> 0 < k0 \<longrightarrow> i0 < length a \<and> j0 < length b"
    for a b :: ustring and acc ps i j k
    using that
  proof (induction ps arbitrary: acc)
    case Nil
    then show ?case by auto
  next
    case (Cons p ps)
    obtain i0 j0 k0 where acc: "acc = (i0, j0, k0)" by (cases acc) auto
    obtain pi pj where p: "p = (pi, pj)" by (cases p) auto
    show ?case
    proof (rule Cons.IH)
      show "foldl (\<lambda>(besti, bestj, bestsize) (i, j).
              let k = common_prefix_len (drop i a) (drop j b)
              in if k > bestsize then (i, j, k) else (besti, bestj, bestsize))
            (if common_prefix_len (drop pi a) (drop pj b) > k0
             then (pi, pj, common_prefix_len (drop pi a) (drop pj b)) else (i0, j0, k0)) ps = (i, j, k)"
        using Cons.prems(1) by (simp add: acc p Let_def)
      show "\<forall>p \<in> set ps. fst p < length a \<and> snd p < length b"
        using Cons.prems(2) by simp
      show "case (if common_prefix_len (drop pi a) (drop pj b) > k0
             then (pi, pj, common_prefix_len (drop pi a) (drop pj b)) else (i0, j0, k0)) of
            (i0, j0, k0) \<Rightarrow> 0 < k0 \<longrightarrow> i0 < length a \<and> j0 < length b"
        using Cons.prems(2,3) by (auto simp: acc p)
    qed
  qed
  have bound: "i < length a \<and> j < length b"
    if "find_longest_match a b = (i, j, k)" and "0 < k" for a b i j k
    using aux [OF that(1) [unfolded find_longest_match_def]] that(2) by auto
  show ?thesis
  proof (relation "measure (\<lambda>(a, b). length a + length b)", goal_cases)
    case 1
    show ?case by simp
  next
    case (2 a b i r j k)
    then have "find_longest_match a b = (i, j, k)" and "0 < k" by auto
    from bound [OF this] show ?case by auto
  next
    case (3 a b i r j k)
    then have "find_longest_match a b = (i, j, k)" and "0 < k" by auto
    from bound [OF this] \<open>0 < k\<close> show ?case by auto
  qed
qed

definition seq_ratio :: "ustring \<Rightarrow> ustring \<Rightarrow> real" where
  "seq_ratio a b =
     (if length a + length b = 0 then 1
      else 2 * real (matching_size a b) / real (length a + length b))"

definition similarity :: "(ustring \<Rightarrow> ustring \<Rightarrow> real) \<Rightarrow> ustring \<Rightarrow> ustring \<Rightarrow> real" where
  "similarity ratio a b = ratio (normalize_text a) (normalize_text b)"

definition is_live_version :: "ustring \<Rightarrow> bool" where
  "is_live_version filename =
     (let filename_lower = lower filename in
      list_ex (\<lambda>indicator. contains filename_lower (cps indicator))
        [''live'', ''concert'', ''tour'', ''festival'', ''unplugged'', ''acoustic''])"

section \<open>Music library and path functions\<close>

text \<open>
  What is found at a path: a plain file, a directory with its entries in the order
  \<open>os.listdir\<close> gives them, or a directory that may not be read (\<open>os.path.isdir\<close> is
  true of it, \<open>os.listdir\<close> raises \<open>PermissionError\<close>). The library is what lies at
  \<open>music_library_path\<close>: \<open>None\<close> when the path does not exist.
\<close>

datatype node = File | Dir "(ustring \<times> node) list" | Unreadable

datatype error = PermissionError | NotADirectoryError | EOFError

definition isdir :: "node \<Rightarrow> bool" where
  "isdir n = (n \<noteq> File)"

definition listdir :: "node \<Rightarrow> error + (ustring \<times> node) list" where
  "listdir n =
     (case n of
        File \<Rightarrow> Inl NotADirectoryError
      | Unreadable \<Rightarrow> Inl PermissionError
      | Dir entries \<Rightarrow> Inr entries)"

text \<open>\<open>os.path.join(a, b)\<close> on POSIX.\<close>

definition path_join :: "ustring \<Rightarrow> ustring \<Rightarrow> ustring" where
  "path_join a b =
     (if startswith b (cps ''/'') then b
      else if a = [] \<or> endswith a (cps ''/'') then a @ b
      else a @ cps ''/'' @ b)"

text \<open>Index of the last occurrence of a character, \<open>None\<close> for Python's \<open>-1\<close>.\<close>

fun rfind :: "ustring \<Rightarrow> nat \<Rightarrow> nat option" where
  "rfind [] c = None"
| "rfind (x # xs) c =
     (case rfind xs c of
        Some i \<Rightarrow> Some (Suc i)
      | None \<Rightarrow> if x = c then Some 0 else None)"

text \<open>
  \<open>os.path.splitext(p)[0]\<close>: the name up to its last dot, when that dot lies behind the
  last separator and some character between the two is not a dot; the whole name
  otherwise.
\<close>

definition splitext_root :: "ustring \<Rightarrow> ustring" where
  "splitext_root p =
     (case rfind p 46 of
        None \<Rightarrow> p
      | Some dotIndex \<Rightarrow>
          (let filenameIndex = (case rfind p 47 of None \<Rightarrow> 0 | Some sepIndex \<Rightarrow> Suc sepIndex) in
           if filenameIndex \<le> dotIndex
              \<and> list_ex (\<lambda>c. c \<noteq> 46) (take (dotIndex - filenameIndex) (drop filenameIndex p))
           then take dotIndex p
           else p))"

text \<open>
  \<open>re.sub(r'^\d+\s*[-\.]\s*', '', name)\<close>: a run of digits at the start, white space, one
  hyphen or dot, white space. Nothing is removed when the name does not start that way.
\<close>

definition strip_track_number :: "ustring \<Rightarrow> ustring" where
  "strip_track_number name =
     (if takeWhile isdigit name = [] then name
      else (case dropWhile isspace (dropWhile isdigit name) of
              [] \<Rightarrow> name
            | c # r \<Rightarrow> if c = 45 \<or> c = 46 then dropWhile isspace r else name))"

section \<open>Candidate retriever\<close>

record match =
  m_path :: ustring
  m_artist :: ustring
  m_title :: ustring
  m_similarity :: real
  m_artist_sim :: real
  m_title_sim :: real
  m_is_live :: bool
  m_filename :: ustring
  m_is_flac :: bool

definition is_audio :: "ustring \<Rightarrow> bool" where
  "is_audio file =
     list_ex (\<lambda>ext. endswith (lower file) (cps ext))
       [''.mp3'', ''.flac'', ''.m4a'', ''.ogg'', ''.wav'']"

text \<open>The artist and title guessed from a file name (lines 197 to 212 of the source).\<close>

definition parse_filename :: "ustring \<Rightarrow> ustring \<Rightarrow> ustring \<times> ustring" where
  "parse_filename artist_dir file =
     (let filename_no_ext = splitext_root file;
          filename_clean = strip_track_number filename_no_ext
      in if contains filename_clean (cps '' - '')
         then (case split_once filename_clean (cps '' - '') of
                 Some (file_artist, file_title) \<Rightarrow> (file_artist, file_title)
               | None \<Rightarrow> (artist_dir, filename_clean))
         else (artist_dir, filename_clean))"

definition combined_sim :: "real \<Rightarrow> real \<Rightarrow> real \<Rightarrow> real" where
  "combined_sim artist_sim file_artist_sim title_sim =
     (artist_sim * 0.6 + file_artist_sim * 0.2 + title_sim * 0.6) / 1.4"

text \<open>
  The body of the innermost loop for one entry \<open>file\<close> of an album directory: the match
  appended to \<open>matches\<close>, if any. Scores are Python floats, modelled as real numbers.
\<close>

definition examine_file ::
  "(ustring \<Rightarrow> ustring \<Rightarrow> real) \<Rightarrow> ustring \<Rightarrow> ustring \<Rightarrow> ustring \<Rightarrow> real \<Rightarrow> ustring
     \<Rightarrow> real \<Rightarrow> real \<Rightarrow> real \<Rightarrow> ustring \<Rightarrow> match option" where
  "examine_file ratio search_artist search_title artist_dir artist_sim album_path
       min_similarity min_artist_sim min_title_sim file =
     (if is_audio file then
        (let full_path = path_join album_path file;
             (file_artist, file_title) = parse_filename artist_dir file;
             file_artist_sim = similarity ratio search_artist (normalize_text file_artist);
             title_sim = similarity ratio search_title (normalize_text file_title);
             combined = combined_sim artist_sim file_artist_sim title_sim
         in if combined \<ge> min_similarity \<and> artist_sim \<ge> min_artist_sim \<and> title_sim \<ge> min_title_sim
            then (let is_live = is_live_version file;
                      flac_bonus = (if endswith (lower file) (cps ''.flac'') then 0.05 else 0.0);
                      final_score = combined + flac_bonus
                  in Some \<lparr> m_path = full_path, m_artist = file_artist, m_title = file_title,
                            m_similarity = final_score, m_artist_sim = artist_sim,
                            m_title_sim = title_sim, m_is_live = is_live, m_filename = file,
                            m_is_flac = endswith (lower file) (cps ''.flac'') \<rparr>)
            else None)
      else None)"

text \<open>The loop over the albums of one artist directory. A listing that raises ends the scan.\<close>

fun scan_albums ::
  "(ustring \<Rightarrow> ustring \<Rightarrow> real) \<Rightarrow> ustring \<Rightarrow> ustring \<Rightarrow> ustring \<Rightarrow> real \<Rightarrow> ustring
     \<Rightarrow> real \<Rightarrow> real \<Rightarrow> real \<Rightarrow> (ustring \<times> node) list \<Rightarrow> error + match list" where
  "scan_albums ratio search_artist search_title artist_dir artist_sim artist_path
       min_similarity min_artist_sim min_title_sim [] = Inr []"
| "scan_albums ratio search_artist search_title artist_dir artist_sim artist_path
       min_similarity min_artist_sim min_title_sim ((album_dir, n) # rest) =
     (let album_path = path_join artist_path album_dir in
      if \<not> isdir n
      then scan_albums ratio search_artist search_title artist_dir artist_sim artist_path
             min_similarity min_artist_sim min_title_sim rest
      else (case listdir n of
              Inl e \<Rightarrow> Inl e
            | Inr files \<Rightarrow>
                (case scan_albums ratio search_artist search_title artist_dir artist_sim artist_path
                        min_similarity min_artist_sim min_title_sim rest of
                   Inl e \<Rightarrow> Inl e
                 | Inr ms \<Rightarrow>
                     Inr (List.map_filter
                            (examine_file ratio search_artist search_title artist_dir artist_sim
                               album_path min_similarity min_artist_sim min_title_sim)
                            (map fst files) @ ms))))"

text \<open>The loop over the artist directories, with the pruning on the folder name.\<close>

fun scan_artists ::
  "(ustring \<Rightarrow> ustring \<Rightarrow> real) \<Rightarrow> ustring \<Rightarrow> ustring \<Rightarrow> ustring
     \<Rightarrow> real \<Rightarrow> real \<Rightarrow> real \<Rightarrow> (ustring \<times> node) list \<Rightarrow> error + match list" where
  "scan_artists ratio search_artist search_title music_library_path
       min_similarity min_artist_sim min_title_sim [] = Inr []"
| "scan_artists ratio search_artist search_title music_library_path
       min_similarity min_artist_sim min_title_sim ((artist_dir, n) # rest) =
     (let artist_path = path_join music_library_path artist_dir in
      if \<not> isdir n
      then scan_artists ratio search_artist search_title music_library_path
             min_similarity min_artist_sim min_title_sim rest
      else (let artist_sim = similarity ratio search_artist (normalize_text artist_dir) in
            if artist_sim < min_artist_sim
            then scan_artists ratio search_artist search_title music_library_path
                   min_similarity min_artist_sim min_title_sim rest
            else (case listdir n of
                    Inl e \<Rightarrow> Inl e
                  | Inr albums \<Rightarrow>
                      (case scan_albums ratio search_artist search_title artist_dir artist_sim
                              artist_path min_similarity min_artist_sim min_title_sim albums of
                         Inl e \<Rightarrow> Inl e
                       | Inr ms \<Rightarrow>
                           (case scan_artists ratio search_artist search_title music_library_path
                                   min_similarity min_artist_sim min_title_sim rest of
                              Inl e \<Rightarrow> Inl e
                            | Inr ms' \<Rightarrow> Inr (ms @ ms'))))))"

text \<open>The sort key \<open>(x['is_live'], not x['is_flac'], -x['similarity'])\<close>.\<close>

definition match_key :: "match \<Rightarrow> bool \<times> bool \<times> real" where
  "match_key x = (m_is_live x, \<not> m_is_flac x, - m_similarity x)"

text \<open>
  Everything \<open>find_best_matches\<close> does before the final sort: the list \<open>matches\<close> in
  discovery order, or the exception that ended the scan.
\<close>

definition collect_matches ::
  "(ustring \<Rightarrow> ustring \<Rightarrow> real) \<Rightarrow> node option \<Rightarrow> ustring \<Rightarrow> ustring \<Rightarrow> ustring
     \<Rightarrow> real \<Rightarrow> real \<Rightarrow> real \<Rightarrow> error + match list" where
  "collect_matches ratio library artist title music_library_path
       min_similarity min_artist_sim min_title_sim =
     (case library of
        None \<Rightarrow> Inr []
      | Some root_dir \<Rightarrow>
          (let search_artist = normalize_text artist;
               search_title = normalize_text title
           in case listdir root_dir of
                Inl e \<Rightarrow> Inl e
              | Inr artists \<Rightarrow>
                  scan_artists ratio search_artist search_title music_library_path
                    min_similarity min_artist_sim min_title_sim artists))"

definition find_best_matches ::
  "(ustring \<Rightarrow> ustring \<Rightarrow> real) \<Rightarrow> node option \<Rightarrow> ustring \<Rightarrow> ustring \<Rightarrow> ustring
     \<Rightarrow> real \<Rightarrow> real \<Rightarrow> real \<Rightarrow> error + match list" where
  "find_best_matches ratio library artist title music_library_path
       min_similarity min_artist_sim min_title_sim =
     (case collect_matches ratio library artist title music_library_path
             min_similarity min_artist_sim min_title_sim of
        Inl e \<Rightarrow> Inl e
      | Inr matches \<Rightarrow> Inr (sort_key match_key matches))"

section \<open>Staged resolver\<close>

definition search_with_fallback ::
  "(ustring \<Rightarrow> ustring \<Rightarrow> real) \<Rightarrow> node option \<Rightarrow> ustring \<Rightarrow> ustring \<Rightarrow> ustring
     \<Rightarrow> error + match option" where
  "search_with_fallback ratio library artist title music_library_path =
     (case find_best_matches ratio library artist title music_library_path 0.75 0.7 0.7 of
        Inl e \<Rightarrow> Inl e
      | Inr (m # ms) \<Rightarrow> Inr (Some m)
      | Inr [] \<Rightarrow>
          (case find_best_matches ratio library artist title music_library_path 0.65 0.6 0.6 of
             Inl e \<Rightarrow> Inl e
           | Inr (m # ms) \<Rightarrow> Inr (Some m)
           | Inr [] \<Rightarrow>
               (case find_best_matches ratio library artist title music_library_path 0.5 0.4 0.5 of
                  Inl e \<Rightarrow> Inl e
                | Inr (m # ms) \<Rightarrow> Inr (Some m)
                | Inr [] \<Rightarrow> Inr None)))"

section \<open>Interactive disambiguator\<close>





section \<open>The two rounds of the main program\<close>




section \<open>Predicates and fixtures used in the statements\<close>

text \<open>
  The scan reaches a directory that may not be read: the library root itself, an artist
  directory whose name reaches the artist threshold, or an album directory of such an
  artist directory.
\<close>

definition visits_unreadable ::
  "(ustring \<Rightarrow> ustring \<Rightarrow> real) \<Rightarrow> node option \<Rightarrow> ustring \<Rightarrow> real \<Rightarrow> bool" where
  "visits_unreadable ratio library artist min_artist_sim =
     (case library of
        None \<Rightarrow> False
      | Some File \<Rightarrow> False
      | Some Unreadable \<Rightarrow> True
      | Some (Dir artists) \<Rightarrow>
          list_ex (\<lambda>(artist_dir, n).
                     similarity ratio (normalize_text artist) (normalize_text artist_dir) \<ge> min_artist_sim
                     \<and> (case n of
                          File \<Rightarrow> False
                        | Unreadable \<Rightarrow> True
                        | Dir albums \<Rightarrow> list_ex (\<lambda>(album_dir, a). a = Unreadable) albums))
                  artists)"




text \<open>
  A small library for concrete runs: one unreadable artist directory, and one artist
  \<open>q\<close> with one album of six files and a stray file beside the album.
\<close>

definition demo_library :: node where
  "demo_library =
     Dir [(cps ''zz'', Unreadable),
          (cps ''q'', Dir [(cps ''al'', Dir [(cps ''xylive.mp3'', File), (cps ''xy.mp3'', File),
                                             (cps ''xy.flac'', File), (cps ''efh.mp3'', File),
                                             (cps ''ik.mp3'', File), (cps ''acd.mp3'', File)]),
                           (cps ''notes'', File)])]"

text \<open>The match for a file of the album \<open>/m/q/al\<close> of that library.\<close>

definition demo_match :: "string \<Rightarrow> string \<Rightarrow> real \<Rightarrow> real \<Rightarrow> bool \<Rightarrow> bool \<Rightarrow> match" where
  "demo_match file title score title_sim live flac =
     \<lparr> m_path = cps ''/m/q/al/'' @ cps file, m_artist = cps ''q'', m_title = cps title,
       m_similarity = score, m_artist_sim = 1, m_title_sim = title_sim,
       m_is_live = live, m_filename = cps file, m_is_flac = flac \<rparr>"

section \<open>Normalizer: texts it leaves alone\<close>

lemma nfkd_cp_small: "c < 160 \<Longrightarrow> nfkd_cp c = [c]"
  by (simp add: nfkd_cp_def nfkd_table_def)

lemma nfkd_small: "\<forall>c \<in> set t. c < 160 \<Longrightarrow> nfkd t = t"
  by (induction t) (simp_all add: nfkd_def nfkd_cp_small)

lemma dropWhile_Cons_in: "dropWhile P s = x # r \<Longrightarrow> x \<in> set s"
  by (metis list.set_intros(1) set_dropWhileD)

lemma group_match_no_open: "opn \<notin> set s \<Longrightarrow> group_match opn cls k s = None"
  by (auto simp: group_match_def Let_def split: list.split dest: dropWhile_Cons_in)

lemma re_sub_del_no_open: "opn \<notin> set s \<Longrightarrow> re_sub_del (group_match opn cls k) s = s"
  by (induction s) (simp_all add: group_match_no_open)

lemma remove_patterns_id: "40 \<notin> set s \<Longrightarrow> 91 \<notin> set s \<Longrightarrow> remove_patterns s = s"
  by (simp add: remove_patterns_def patterns_to_remove_def re_sub_del_no_open)

lemma replace_id: "old \<notin> set t \<Longrightarrow> replace old new t = t"
  by (induction t) (auto simp: replace_def)

lemma foldl_replace_id:
  "\<forall>p \<in> set rs. fst p \<notin> set t \<Longrightarrow> foldl (\<lambda>t (old, new). replace old new t) t rs = t"
  by (induction rs) (auto simp: replace_id)

lemma apply_replacements_id:
  "\<forall>c \<in> set t. c \<notin> fst ` set replacements \<Longrightarrow> apply_replacements t = t"
  unfolding apply_replacements_def by (rule foldl_replace_id) auto

lemma collapse_ws_id: "\<forall>c \<in> set t. \<not> isspace c \<Longrightarrow> collapse_ws t = t"
  by (induction t) auto

lemma dropWhile_none: "\<forall>c \<in> set t. \<not> P c \<Longrightarrow> dropWhile P t = t"
  by (cases t) auto

lemma strip_id: "\<forall>c \<in> set t. \<not> isspace c \<Longrightarrow> strip t = t"
  by (simp add: strip_def lstrip_def rstrip_def dropWhile_none)

lemma normalize_letters:
  assumes "\<forall>c \<in> set t. 97 \<le> c \<and> c \<le> 122"
  shows "normalize_text t = t"
proof (cases "t = []")
  case True
  then show ?thesis by (simp add: normalize_text_def)
next
  case False
  have a: "nfkd t = t" using assms by (intro nfkd_small) auto
  have b: "lower t = t"
    unfolding lower_def by (rule map_idI) (use assms in \<open>auto simp: lower_cp_def\<close>)
  have ns: "\<forall>c \<in> set t. \<not> isspace c" using assms by (auto simp: isspace_def)
  have c: "remove_patterns t = t" using assms by (intro remove_patterns_id) auto
  have d: "apply_replacements t = t" using assms
    by (intro apply_replacements_id) (auto simp: replacements_def)
  show ?thesis using False by (simp add: normalize_text_def a b c d strip_id [OF ns] collapse_ws_id [OF ns])
qed

section \<open>Concrete runs on the small library\<close>

declare matching_size.simps [simp del]

lemmas eval_defs = cps_def lower_def lower_cp_def isspace_def isdigit_def startswith_def endswith_def
  path_join_def splitext_root_def strip_track_number_def is_audio_def parse_filename_def
  combined_sim_def examine_file_def isdir_def listdir_def match_key_def collect_matches_def
  find_best_matches_def similarity_def is_live_version_def seq_ratio_def find_longest_match_def
  matching_size.simps List.map_filter_def Let_def

lemma demo_xy_strict:
  "find_best_matches seq_ratio (Some demo_library) (cps ''q'') (cps ''xy'') (cps ''/m'') 0.75 0.7 0.7
   = Inr [demo_match ''xy.flac'' ''xy'' 1.05 1 False True,
          demo_match ''xy.mp3'' ''xy'' 1 1 False False]"
  by (simp add: demo_library_def demo_match_def eval_defs normalize_letters)

lemma demo_xy_collect:
  "collect_matches seq_ratio (Some demo_library) (cps ''q'') (cps ''xy'') (cps ''/m'') 0.3 0.2 0.3
   = Inr [demo_match ''xylive.mp3'' ''xylive'' (11 / 14) (1 / 2) True False,
          demo_match ''xy.mp3'' ''xy'' 1 1 False False,
          demo_match ''xy.flac'' ''xy'' 1.05 1 False True]"
  by (simp add: demo_library_def demo_match_def eval_defs normalize_letters)

lemma demo_xy_loose:
  "find_best_matches seq_ratio (Some demo_library) (cps ''q'') (cps ''xy'') (cps ''/m'') 0.3 0.2 0.3
   = Inr [demo_match ''xy.flac'' ''xy'' 1.05 1 False True,
          demo_match ''xy.mp3'' ''xy'' 1 1 False False,
          demo_match ''xylive.mp3'' ''xylive'' (11 / 14) (1 / 2) True False]"
  unfolding find_best_matches_def demo_xy_collect by (simp add: demo_match_def match_key_def)

lemma demo_xy_zero:
  "find_best_matches seq_ratio (Some demo_library) (cps ''q'') (cps ''xy'') (cps ''/m'') 0 0 0
   = Inl PermissionError"
  by (simp add: demo_library_def eval_defs normalize_letters)

lemma demo_zz_strict:
  "find_best_matches seq_ratio (Some demo_library) (cps ''zz'') (cps ''xy'') (cps ''/m'') 0.75 0.7 0.7
   = Inl PermissionError"
  by (simp add: demo_library_def eval_defs normalize_letters)

lemma demo_efg_1:
  "find_best_matches seq_ratio (Some demo_library) (cps ''q'') (cps ''efg'') (cps ''/m'') 0.75 0.7 0.7
   = Inr []"
  by (simp add: demo_library_def eval_defs normalize_letters)

lemma demo_efg_2:
  "find_best_matches seq_ratio (Some demo_library) (cps ''q'') (cps ''efg'') (cps ''/m'') 0.65 0.6 0.6
   = Inr [demo_match ''efh.mp3'' ''efh'' (6 / 7) (2 / 3) False False]"
  by (simp add: demo_library_def demo_match_def eval_defs normalize_letters)

lemma demo_ij_1:
  "find_best_matches seq_ratio (Some demo_library) (cps ''q'') (cps ''ij'') (cps ''/m'') 0.75 0.7 0.7
   = Inr []"
  by (simp add: demo_library_def eval_defs normalize_letters)

lemma demo_ij_2:
  "find_best_matches seq_ratio (Some demo_library) (cps ''q'') (cps ''ij'') (cps ''/m'') 0.65 0.6 0.6
   = Inr []"
  by (simp add: demo_library_def eval_defs normalize_letters)

lemma demo_ij_3:
  "find_best_matches seq_ratio (Some demo_library) (cps ''q'') (cps ''ij'') (cps ''/m'') 0.5 0.4 0.5
   = Inr [demo_match ''ik.mp3'' ''ik'' (11 / 14) (1 / 2) False False]"
  by (simp add: demo_library_def demo_match_def eval_defs normalize_letters)

lemma demo_ab_1:
  "find_best_matches seq_ratio (Some demo_library) (cps ''q'') (cps ''ab'') (cps ''/m'') 0.75 0.7 0.7
   = Inr []"
  by (simp add: demo_library_def eval_defs normalize_letters)

lemma demo_ab_2:
  "find_best_matches seq_ratio (Some demo_library) (cps ''q'') (cps ''ab'') (cps ''/m'') 0.65 0.6 0.6
   = Inr []"
  by (simp add: demo_library_def eval_defs normalize_letters)

lemma demo_ab_3:
  "find_best_matches seq_ratio (Some demo_library) (cps ''q'') (cps ''ab'') (cps ''/m'') 0.5 0.4 0.5
   = Inr []"
  by (simp add: demo_library_def eval_defs normalize_letters)







section \<open>Retrieval: what the scan returns\<close>

lemma scan_albums_result:
  "scan_albums ratio sa st ad asim ap ms ma mt albums =
     (if list_ex (\<lambda>(album_dir, a). a = Unreadable) albums then Inl PermissionError
      else Inr (concat (map (\<lambda>(album_dir, a).
                  case a of
                    Dir files \<Rightarrow> List.map_filter (examine_file ratio sa st ad asim (path_join ap album_dir) ms ma mt) (map fst files)
                  | _ \<Rightarrow> []) albums)))"
proof (induction albums)
  case Nil
  then show ?case by simp
next
  case (Cons p albums)
  obtain album_dir a where p: "p = (album_dir, a)" by (cases p)
  show ?case
    by (cases a) (simp_all add: p Cons.IH isdir_def listdir_def Let_def)
qed

lemma scan_artists_result:
  "scan_artists ratio sa st mlp ms ma mt artists =
     (if list_ex (\<lambda>(artist_dir, n).
                     similarity ratio sa (normalize_text artist_dir) \<ge> ma
                     \<and> (case n of
                          File \<Rightarrow> False
                        | Unreadable \<Rightarrow> True
                        | Dir albums \<Rightarrow> list_ex (\<lambda>(album_dir, a). a = Unreadable) albums)) artists
      then Inl PermissionError
      else Inr (concat (map (\<lambda>(artist_dir, n).
                  case n of
                    Dir albums \<Rightarrow>
                      if similarity ratio sa (normalize_text artist_dir) \<ge> ma
                      then concat (map (\<lambda>(album_dir, a).
                             case a of
                               Dir files \<Rightarrow> List.map_filter
                                  (examine_file ratio sa st artist_dir
                                     (similarity ratio sa (normalize_text artist_dir))
                                     (path_join (path_join mlp artist_dir) album_dir) ms ma mt) (map fst files)
                             | _ \<Rightarrow> []) albums)
                      else []
                  | _ \<Rightarrow> []) artists)))"
proof (induction artists)
  case Nil
  then show ?case by simp
next
  case (Cons p artists)
  obtain artist_dir n where p: "p = (artist_dir, n)" by (cases p)
  show ?case
  proof (cases n)
    case File
    then show ?thesis by (simp add: p Cons.IH isdir_def Let_def)
  next
    case (Dir albums)
    then show ?thesis
      by (simp add: p Cons.IH isdir_def listdir_def Let_def scan_albums_result not_le)
  next
    case Unreadable
    then show ?thesis
      by (simp add: p Cons.IH isdir_def listdir_def Let_def not_le)
  qed
qed

lemma find_best_matches_outcome:
  "(visits_unreadable ratio library artist min_artist_sim
      \<longrightarrow> find_best_matches ratio library artist title path min_similarity min_artist_sim min_title_sim
            = Inl PermissionError)
   \<and> (\<not> visits_unreadable ratio library artist min_artist_sim \<and> library \<noteq> Some File
      \<longrightarrow> (\<exists>ms. find_best_matches ratio library artist title path min_similarity min_artist_sim min_title_sim
            = Inr ms))"
proof (cases library)
  case None
  then show ?thesis
    by (simp add: visits_unreadable_def find_best_matches_def collect_matches_def)
next
  case (Some root_dir)
  show ?thesis
  proof (cases root_dir)
    case File
    then show ?thesis using Some
      by (simp add: visits_unreadable_def)
  next
    case (Dir artists)
    then show ?thesis using Some
      by (simp add: visits_unreadable_def find_best_matches_def collect_matches_def listdir_def
            scan_artists_result Let_def)
  next
    case Unreadable
    then show ?thesis using Some
      by (simp add: visits_unreadable_def find_best_matches_def collect_matches_def listdir_def)
  qed
qed

lemma sorted_key_nth:
  assumes "sorted (map match_key ms)" "i < j" "j < length ms"
  shows "match_key (ms ! i) \<le> match_key (ms ! j)"
  using assms sorted_nth_mono [of "map match_key ms" i j] by simp

lemma examine_file_Some:
  "examine_file ratio sa st artist_dir artist_sim album_path min_similarity min_artist_sim min_title_sim file
     = Some m
   \<longleftrightarrow> is_audio file
     \<and> combined_sim artist_sim
          (similarity ratio sa (normalize_text (fst (parse_filename artist_dir file))))
          (similarity ratio st (normalize_text (snd (parse_filename artist_dir file)))) \<ge> min_similarity
     \<and> artist_sim \<ge> min_artist_sim
     \<and> similarity ratio st (normalize_text (snd (parse_filename artist_dir file))) \<ge> min_title_sim
     \<and> m = \<lparr> m_path = path_join album_path file,
              m_artist = fst (parse_filename artist_dir file),
              m_title = snd (parse_filename artist_dir file),
              m_similarity =
                combined_sim artist_sim
                  (similarity ratio sa (normalize_text (fst (parse_filename artist_dir file))))
                  (similarity ratio st (normalize_text (snd (parse_filename artist_dir file))))
                + (if endswith (lower file) (cps ''.flac'') then 0.05 else 0),
              m_artist_sim = artist_sim,
              m_title_sim = similarity ratio st (normalize_text (snd (parse_filename artist_dir file))),
              m_is_live = is_live_version file,
              m_filename = file,
              m_is_flac = endswith (lower file) (cps ''.flac'') \<rparr>"
  by (cases "parse_filename artist_dir file") (auto simp: examine_file_def Let_def)

lemma set_map_filter_eq:
  "set (List.map_filter f xs) = {y. \<exists>x \<in> set xs. f x = Some y}"
  by (induction xs) (auto split: option.splits)

lemma set_album_case:
  "m \<in> set (case a of Dir files \<Rightarrow> List.map_filter (f ad) (map fst files) | _ \<Rightarrow> [])
   \<longleftrightarrow> (\<exists>files. a = Dir files \<and> (\<exists>file \<in> fst ` set files. f ad file = Some m))"
  by (cases a) (auto simp: set_map_filter_eq)

lemma set_album_list:
  "set (concat (map (\<lambda>(album_dir, a).
          case a of Dir files \<Rightarrow> List.map_filter (f album_dir) (map fst files) | _ \<Rightarrow> []) albums))
   = {m. \<exists>album_dir files file.
           (album_dir, Dir files) \<in> set albums \<and> file \<in> fst ` set files \<and> f album_dir file = Some m}"
proof (rule set_eqI)
  fix m
  have "m \<in> set (concat (map (\<lambda>(album_dir, a).
          case a of Dir files \<Rightarrow> List.map_filter (f album_dir) (map fst files) | _ \<Rightarrow> []) albums))
      \<longleftrightarrow> (\<exists>p \<in> set albums. \<exists>files. snd p = Dir files
              \<and> (\<exists>file \<in> fst ` set files. f (fst p) file = Some m))"
    by (simp add: split_beta set_album_case) (force simp: set_map_filter_eq)
  also have "\<dots> \<longleftrightarrow> (\<exists>album_dir files file.
           (album_dir, Dir files) \<in> set albums \<and> file \<in> fst ` set files \<and> f album_dir file = Some m)"
    by force
  finally show "m \<in> set (concat (map (\<lambda>(album_dir, a).
          case a of Dir files \<Rightarrow> List.map_filter (f album_dir) (map fst files) | _ \<Rightarrow> []) albums))
      \<longleftrightarrow> m \<in> {m. \<exists>album_dir files file.
           (album_dir, Dir files) \<in> set albums \<and> file \<in> fst ` set files \<and> f album_dir file = Some m}"
    by simp
qed

lemma set_artist_case:
  "m \<in> set (case n of Dir albums \<Rightarrow> if c then g albums else [] | _ \<Rightarrow> [])
   \<longleftrightarrow> (\<exists>albums. n = Dir albums \<and> c \<and> m \<in> set (g albums))"
  by (cases n) auto

lemma set_artist_list:
  "set (concat (map (\<lambda>(artist_dir, n).
          case n of Dir albums \<Rightarrow> if c artist_dir then g artist_dir albums else [] | _ \<Rightarrow> []) artists))
   = {m. \<exists>artist_dir albums.
           (artist_dir, Dir albums) \<in> set artists \<and> c artist_dir \<and> m \<in> set (g artist_dir albums)}"
proof (rule set_eqI)
  fix m
  have "m \<in> set (concat (map (\<lambda>(artist_dir, n).
          case n of Dir albums \<Rightarrow> if c artist_dir then g artist_dir albums else [] | _ \<Rightarrow> []) artists))
      \<longleftrightarrow> (\<exists>p \<in> set artists. \<exists>albums. snd p = Dir albums \<and> c (fst p) \<and> m \<in> set (g (fst p) albums))"
    by (simp add: split_beta set_artist_case) force
  also have "\<dots> \<longleftrightarrow> (\<exists>artist_dir albums.
           (artist_dir, Dir albums) \<in> set artists \<and> c artist_dir \<and> m \<in> set (g artist_dir albums))"
    by force
  finally show "m \<in> set (concat (map (\<lambda>(artist_dir, n).
          case n of Dir albums \<Rightarrow> if c artist_dir then g artist_dir albums else [] | _ \<Rightarrow> []) artists))
      \<longleftrightarrow> m \<in> {m. \<exists>artist_dir albums.
           (artist_dir, Dir albums) \<in> set artists \<and> c artist_dir \<and> m \<in> set (g artist_dir albums)}"
    by simp
qed

lemma set_scan_artists_list:
  "set (concat (map (\<lambda>(artist_dir, n).
                  case n of
                    Dir albums \<Rightarrow>
                      if similarity ratio sa (normalize_text artist_dir) \<ge> ma
                      then concat (map (\<lambda>(album_dir, a).
                             case a of
                               Dir files \<Rightarrow> List.map_filter
                                  (examine_file ratio sa st artist_dir
                                     (similarity ratio sa (normalize_text artist_dir))
                                     (path_join (path_join mlp artist_dir) album_dir) ms ma mt) (map fst files)
                             | _ \<Rightarrow> []) albums)
                      else []
                  | _ \<Rightarrow> []) artists))
   = {m. \<exists>artist_dir albums album_dir files file.
           (artist_dir, Dir albums) \<in> set artists
         \<and> similarity ratio sa (normalize_text artist_dir) \<ge> ma
         \<and> (album_dir, Dir files) \<in> set albums
         \<and> file \<in> fst ` set files
         \<and> examine_file ratio sa st artist_dir (similarity ratio sa (normalize_text artist_dir))
              (path_join (path_join mlp artist_dir) album_dir) ms ma mt file = Some m}"
  unfolding set_artist_list set_album_list by blast

lemma collect_matches_set:
  assumes "collect_matches ratio (Some (Dir artists)) artist title mlp ms ma mt = Inr found"
  shows "set found
   = {m. \<exists>artist_dir albums album_dir files file.
           (artist_dir, Dir albums) \<in> set artists
         \<and> similarity ratio (normalize_text artist) (normalize_text artist_dir) \<ge> ma
         \<and> (album_dir, Dir files) \<in> set albums
         \<and> file \<in> fst ` set files
         \<and> examine_file ratio (normalize_text artist) (normalize_text title) artist_dir
              (similarity ratio (normalize_text artist) (normalize_text artist_dir))
              (path_join (path_join mlp artist_dir) album_dir) ms ma mt file = Some m}"
proof -
  from assms have "scan_artists ratio (normalize_text artist) (normalize_text title) mlp ms ma mt artists
                   = Inr found"
    by (simp add: collect_matches_def listdir_def Let_def)
  then show ?thesis
    unfolding scan_artists_result
    by (simp only: set_scan_artists_list [symmetric] split: if_splits) auto
qed

lemma visits_unreadable_mono:
  assumes "ma \<le> ma'" "visits_unreadable ratio library artist ma'"
  shows "visits_unreadable ratio library artist ma"
proof (cases library)
  case None
  with assms show ?thesis by (simp add: visits_unreadable_def)
next
  case (Some root_dir)
  show ?thesis
  proof (cases root_dir)
    case (Dir artists)
    from assms(2) obtain p where p: "p \<in> set artists"
      and s: "ma' \<le> similarity ratio (normalize_text artist) (normalize_text (fst p))"
      and u: "case snd p of File \<Rightarrow> False | Unreadable \<Rightarrow> True
              | Dir albums \<Rightarrow> list_ex (\<lambda>(album_dir, a). a = Unreadable) albums"
      by (auto simp: visits_unreadable_def Some Dir list_ex_iff)
    from s assms(1) have "ma \<le> similarity ratio (normalize_text artist) (normalize_text (fst p))"
      by simp
    with p u show ?thesis
      by (auto simp: visits_unreadable_def Some Dir list_ex_iff split_beta intro!: bexI [of _ p])
  qed (use assms Some in \<open>auto simp: visits_unreadable_def\<close>)
qed

lemma examine_file_mono:
  assumes "ms \<le> ms'" "ma \<le> ma'" "mt \<le> mt'"
    and "examine_file ratio sa st artist_dir artist_sim album_path ms' ma' mt' file = Some m"
  shows "examine_file ratio sa st artist_dir artist_sim album_path ms ma mt file = Some m"
  using assms by (simp add: examine_file_Some)




section \<open>The claims\<close>

subsection \<open>C1: order of the output list\<close>




subsection \<open>C2: directories that may not be read\<close>

text \<open>
  Claim C2 says that a directory whose listing raises a permission error is skipped and
  the scan goes on. \<open>find_best_matches\<close> has no handler around \<open>os.listdir\<close>: in the
  small library the artist directory \<open>zz\<close> may not be read, and a query for the artist
  \<open>zz\<close> ends with the error although the directory \<open>q\<close> could still be scanned.
\<close>

theorem find_best_matches_permission_counterexample:
  "find_best_matches seq_ratio (Some demo_library) (cps ''zz'') (cps ''xy'') (cps ''/m'') 0.75 0.7 0.7 = Inl PermissionError"
  by (rule demo_zz_strict)

text \<open>
  Claim C2 as amended: a permission error raised by a directory the scan visits (the
  library root, an artist directory whose name reaches the artist threshold, an album
  directory of such an artist directory) ends \<open>find_best_matches\<close> with that error;
  when the scan visits no such directory and the library root is not a plain file,
  \<open>find_best_matches\<close> returns normally. An unreadable artist directory is passed over
  only when the artist threshold prunes it.
\<close>

theorem find_best_matches_permission_error:
  "(visits_unreadable ratio library artist min_artist_sim
      \<longrightarrow> find_best_matches ratio library artist title path min_similarity min_artist_sim min_title_sim
            = Inl PermissionError)
   \<and> (\<not> visits_unreadable ratio library artist min_artist_sim \<and> library \<noteq> Some File
      \<longrightarrow> (\<exists>ms. find_best_matches ratio library artist title path min_similarity min_artist_sim min_title_sim
            = Inr ms))"
  by (rule find_best_matches_outcome)

theorem find_best_matches_permission_error_witness:
  "visits_unreadable seq_ratio (Some demo_library) (cps ''zz'') 0.7
   \<and> find_best_matches seq_ratio (Some demo_library) (cps ''zz'') (cps ''ab'') (cps ''/m'') 0.75 0.7 0.7 = Inl PermissionError
   \<and> \<not> visits_unreadable seq_ratio (Some demo_library) (cps ''q'') 0.7
   \<and> (\<exists>ms. find_best_matches seq_ratio (Some demo_library) (cps ''q'') (cps ''ab'') (cps ''/m'') 0.75 0.7 0.7 = Inr ms)"
proof -
  have v: "visits_unreadable seq_ratio (Some demo_library) (cps ''zz'') 0.7"
    by (simp add: visits_unreadable_def demo_library_def eval_defs normalize_letters)
  have n: "\<not> visits_unreadable seq_ratio (Some demo_library) (cps ''q'') 0.7"
    by (simp add: visits_unreadable_def demo_library_def eval_defs normalize_letters)
  have l: "Some demo_library \<noteq> Some File"
    by (simp add: demo_library_def)
  show ?thesis
    using v n l
      find_best_matches_permission_error [of seq_ratio "Some demo_library" "cps ''zz''" "0.7"
        "cps ''ab''" "cps ''/m''" "0.75" "0.7"]
      find_best_matches_permission_error [of seq_ratio "Some demo_library" "cps ''q''" "0.7"
        "cps ''ab''" "cps ''/m''" "0.75" "0.7"]
    by blast
qed

subsection \<open>C6: order of the candidate list\<close>

text \<open>
  Claim C6: the list \<open>find_best_matches\<close> returns is sorted by the key (is_live
  ascending, is_flac descending, score descending): a candidate that is not live comes
  before every live one, within the same liveness a demo_match ''xy.flac'' ''xy'' 1.05 1 False True candidate comes before every
  other one, within the same liveness and format the higher score comes first, and
  candidates with equal keys keep their discovery order. The list is a rearrangement of
  the list in discovery order.
\<close>

theorem find_best_matches_sorted:
  assumes "find_best_matches ratio library artist title path min_similarity min_artist_sim min_title_sim
             = Inr ms"
  shows "\<exists>discovered.
           collect_matches ratio library artist title path min_similarity min_artist_sim min_title_sim
             = Inr discovered
         \<and> mset ms = mset discovered
         \<and> sorted (map match_key ms)
         \<and> (\<forall>k. filter (\<lambda>m. match_key m = k) ms = filter (\<lambda>m. match_key m = k) discovered)
         \<and> (\<forall>i j. i < j \<and> j < length ms \<longrightarrow>
               (m_is_live (ms ! i) \<longrightarrow> m_is_live (ms ! j))
             \<and> (m_is_live (ms ! i) = m_is_live (ms ! j)
                  \<longrightarrow> (m_is_flac (ms ! j) \<longrightarrow> m_is_flac (ms ! i)))
             \<and> (m_is_live (ms ! i) = m_is_live (ms ! j) \<and> m_is_flac (ms ! i) = m_is_flac (ms ! j)
                  \<longrightarrow> m_similarity (ms ! j) \<le> m_similarity (ms ! i)))"
proof -
  from assms obtain discovered where
    d: "collect_matches ratio library artist title path min_similarity min_artist_sim min_title_sim
          = Inr discovered"
    and ms: "ms = sort_key match_key discovered"
    by (auto simp: find_best_matches_def split: sum.splits)
  have s: "sorted (map match_key ms)" by (simp add: ms)
  have ord: "(m_is_live (ms ! i) \<longrightarrow> m_is_live (ms ! j))
             \<and> (m_is_live (ms ! i) = m_is_live (ms ! j)
                  \<longrightarrow> (m_is_flac (ms ! j) \<longrightarrow> m_is_flac (ms ! i)))
             \<and> (m_is_live (ms ! i) = m_is_live (ms ! j) \<and> m_is_flac (ms ! i) = m_is_flac (ms ! j)
                  \<longrightarrow> m_similarity (ms ! j) \<le> m_similarity (ms ! i))"
    if "i < j" "j < length ms" for i j
    using sorted_key_nth [OF s that] by (auto simp: match_key_def less_eq_prod_def)
  have m: "mset ms = mset discovered" by (simp add: ms)
  have st: "\<forall>k. filter (\<lambda>m. match_key m = k) ms = filter (\<lambda>m. match_key m = k) discovered"
    by (simp add: ms sort_key_stable)
  from d m s st ord show ?thesis by blast
qed

theorem find_best_matches_sorted_witness:
  "find_best_matches seq_ratio (Some demo_library) (cps ''q'') (cps ''xy'') (cps ''/m'') 0.3 0.2 0.3 = Inr [demo_match ''xy.flac'' ''xy'' 1.05 1 False True, demo_match ''xy.mp3'' ''xy'' 1 1 False False, demo_match ''xylive.mp3'' ''xylive'' (11 / 14) (1 / 2) True False]
   \<and> collect_matches seq_ratio (Some demo_library) (cps ''q'') (cps ''xy'') (cps ''/m'') 0.3 0.2 0.3
       = Inr [demo_match ''xylive.mp3'' ''xylive'' (11 / 14) (1 / 2) True False, demo_match ''xy.mp3'' ''xy'' 1 1 False False, demo_match ''xy.flac'' ''xy'' 1.05 1 False True]
   \<and> sorted (map match_key [demo_match ''xy.flac'' ''xy'' 1.05 1 False True, demo_match ''xy.mp3'' ''xy'' 1 1 False False, demo_match ''xylive.mp3'' ''xylive'' (11 / 14) (1 / 2) True False])"
  using find_best_matches_sorted [OF demo_xy_loose]
  unfolding demo_xy_loose demo_xy_collect by auto

subsection \<open>C7: the three stages of the resolver\<close>

text \<open>
  Claim C7: \<open>search_with_fallback\<close> runs the retrieval at the thresholds
  (0.75, 0.7, 0.7), then (0.65, 0.6, 0.6), then (0.5, 0.4, 0.5), returns the first
  candidate of the first stage whose list is not empty, and returns none exactly when
  all three lists are empty; a non-empty first stage always decides.
\<close>

theorem search_with_fallback_stages:
  "(\<forall>m ms. find_best_matches ratio library artist title path 0.75 0.7 0.7 = Inr (m # ms)
       \<longrightarrow> search_with_fallback ratio library artist title path = Inr (Some m))
   \<and> (\<forall>m ms. find_best_matches ratio library artist title path 0.75 0.7 0.7 = Inr []
         \<and> find_best_matches ratio library artist title path 0.65 0.6 0.6 = Inr (m # ms)
       \<longrightarrow> search_with_fallback ratio library artist title path = Inr (Some m))
   \<and> (\<forall>m ms. find_best_matches ratio library artist title path 0.75 0.7 0.7 = Inr []
         \<and> find_best_matches ratio library artist title path 0.65 0.6 0.6 = Inr []
         \<and> find_best_matches ratio library artist title path 0.5 0.4 0.5 = Inr (m # ms)
       \<longrightarrow> search_with_fallback ratio library artist title path = Inr (Some m))
   \<and> (search_with_fallback ratio library artist title path = Inr None
       \<longleftrightarrow> find_best_matches ratio library artist title path 0.75 0.7 0.7 = Inr []
         \<and> find_best_matches ratio library artist title path 0.65 0.6 0.6 = Inr []
         \<and> find_best_matches ratio library artist title path 0.5 0.4 0.5 = Inr [])"
  by (auto simp: search_with_fallback_def split: sum.splits list.splits)

theorem search_with_fallback_stages_witness:
  "find_best_matches seq_ratio (Some demo_library) (cps ''q'') (cps ''xy'') (cps ''/m'') 0.75 0.7 0.7 = Inr [demo_match ''xy.flac'' ''xy'' 1.05 1 False True, demo_match ''xy.mp3'' ''xy'' 1 1 False False]
   \<and> search_with_fallback seq_ratio (Some demo_library) (cps ''q'') (cps ''xy'') (cps ''/m'')
       = Inr (Some (demo_match ''xy.flac'' ''xy'' 1.05 1 False True))
   \<and> find_best_matches seq_ratio (Some demo_library) (cps ''q'') (cps ''efg'') (cps ''/m'') 0.75 0.7 0.7 = Inr []
   \<and> find_best_matches seq_ratio (Some demo_library) (cps ''q'') (cps ''efg'') (cps ''/m'') 0.65 0.6 0.6 = Inr [demo_match ''efh.mp3'' ''efh'' (6 / 7) (2 / 3) False False]
   \<and> search_with_fallback seq_ratio (Some demo_library) (cps ''q'') (cps ''efg'') (cps ''/m'')
       = Inr (Some (demo_match ''efh.mp3'' ''efh'' (6 / 7) (2 / 3) False False))
   \<and> find_best_matches seq_ratio (Some demo_library) (cps ''q'') (cps ''ij'') (cps ''/m'') 0.75 0.7 0.7 = Inr []
   \<and> find_best_matches seq_ratio (Some demo_library) (cps ''q'') (cps ''ij'') (cps ''/m'') 0.65 0.6 0.6 = Inr []
   \<and> find_best_matches seq_ratio (Some demo_library) (cps ''q'') (cps ''ij'') (cps ''/m'') 0.5 0.4 0.5 = Inr [demo_match ''ik.mp3'' ''ik'' (11 / 14) (1 / 2) False False]
   \<and> search_with_fallback seq_ratio (Some demo_library) (cps ''q'') (cps ''ij'') (cps ''/m'')
       = Inr (Some (demo_match ''ik.mp3'' ''ik'' (11 / 14) (1 / 2) False False))
   \<and> find_best_matches seq_ratio (Some demo_library) (cps ''q'') (cps ''ab'') (cps ''/m'') 0.75 0.7 0.7 = Inr []
   \<and> find_best_matches seq_ratio (Some demo_library) (cps ''q'') (cps ''ab'') (cps ''/m'') 0.65 0.6 0.6 = Inr []
   \<and> find_best_matches seq_ratio (Some demo_library) (cps ''q'') (cps ''ab'') (cps ''/m'') 0.5 0.4 0.5 = Inr []
   \<and> search_with_fallback seq_ratio (Some demo_library) (cps ''q'') (cps ''ab'') (cps ''/m'')
       = Inr None"
  using
    search_with_fallback_stages [of seq_ratio "Some demo_library" "cps ''q''" "cps ''xy''" "cps ''/m''"]
    search_with_fallback_stages [of seq_ratio "Some demo_library" "cps ''q''" "cps ''efg''" "cps ''/m''"]
    search_with_fallback_stages [of seq_ratio "Some demo_library" "cps ''q''" "cps ''ij''" "cps ''/m''"]
    search_with_fallback_stages [of seq_ratio "Some demo_library" "cps ''q''" "cps ''ab''" "cps ''/m''"]
  unfolding demo_xy_strict demo_efg_1 demo_efg_2 demo_ij_1 demo_ij_2 demo_ij_3
    demo_ab_1 demo_ab_2 demo_ab_3
  by simp

subsection \<open>C8: acceptance of a file\<close>



subsection \<open>C9: the interactive selection\<close>



subsection \<open>C10: looser thresholds\<close>

text \<open>
  Claim C10 says that every candidate returned at stricter thresholds is also returned
  at looser ones, for every library. With looser artist thresholds the scan lists more
  artist directories, and one of them may not be readable: in the small library the
  default thresholds return two candidates for \<open>(q, xy)\<close>, and the thresholds
  (0, 0, 0) return none, because the scan then lists the directory \<open>zz\<close> and ends with
  a permission error.
\<close>

theorem retrieval_monotone_counterexample:
  "(0 :: real) \<le> 0.75 \<and> (0 :: real) \<le> 0.7
   \<and> find_best_matches seq_ratio (Some demo_library) (cps ''q'') (cps ''xy'') (cps ''/m'') 0.75 0.7 0.7 = Inr [demo_match ''xy.flac'' ''xy'' 1.05 1 False True, demo_match ''xy.mp3'' ''xy'' 1 1 False False]
   \<and> find_best_matches seq_ratio (Some demo_library) (cps ''q'') (cps ''xy'') (cps ''/m'') 0 0 0 = Inl PermissionError"
  unfolding demo_xy_strict demo_xy_zero by simp

text \<open>
  Claim C10 as amended: when the retrieval at the looser thresholds returns normally,
  the retrieval at the stricter thresholds returns normally too, and every candidate it
  returns (same path, scores and flags) is among the candidates returned at the looser
  thresholds.
\<close>

theorem retrieval_monotone:
  assumes le: "min_similarity \<le> min_similarity'" "min_artist_sim \<le> min_artist_sim'"
              "min_title_sim \<le> min_title_sim'"
    and loose: "find_best_matches ratio library artist title path
                  min_similarity min_artist_sim min_title_sim = Inr ms"
  shows "\<exists>ms'. find_best_matches ratio library artist title path
                  min_similarity' min_artist_sim' min_title_sim' = Inr ms'
               \<and> set ms' \<subseteq> set ms"
proof -
  have nv: "\<not> visits_unreadable ratio library artist min_artist_sim"
  proof
    assume "visits_unreadable ratio library artist min_artist_sim"
    then have "find_best_matches ratio library artist title path
                  min_similarity min_artist_sim min_title_sim = Inl PermissionError"
      by (rule find_best_matches_outcome [THEN conjunct1, rule_format])
    with loose show False by simp
  qed
  then have nv': "\<not> visits_unreadable ratio library artist min_artist_sim'"
    using visits_unreadable_mono [OF le(2)] by blast
  have nf: "library \<noteq> Some File"
    using loose by (auto simp: find_best_matches_def collect_matches_def listdir_def)
  from nv' nf have "\<exists>ms'. find_best_matches ratio library artist title path
                  min_similarity' min_artist_sim' min_title_sim' = Inr ms'"
    by (intro find_best_matches_outcome [THEN conjunct2, rule_format]) simp
  then obtain ms' where
    strict: "find_best_matches ratio library artist title path
                  min_similarity' min_artist_sim' min_title_sim' = Inr ms'" ..
  have "set ms' \<subseteq> set ms"
  proof (cases library)
    case None
    with strict loose show ?thesis
      by (simp add: find_best_matches_def collect_matches_def)
  next
    case (Some root_dir)
    show ?thesis
    proof (cases root_dir)
      case File
      with nf Some show ?thesis by simp
    next
      case Unreadable
      with nv Some show ?thesis by (simp add: visits_unreadable_def)
    next
      case (Dir artists)
      from loose obtain found where
        f: "collect_matches ratio (Some (Dir artists)) artist title path
              min_similarity min_artist_sim min_title_sim = Inr found"
        and ms: "ms = sort_key match_key found"
        by (auto simp: find_best_matches_def Some Dir split: sum.splits)
      from strict obtain found' where
        f': "collect_matches ratio (Some (Dir artists)) artist title path
              min_similarity' min_artist_sim' min_title_sim' = Inr found'"
        and ms': "ms' = sort_key match_key found'"
        by (auto simp: find_best_matches_def Some Dir split: sum.splits)
      have "set found' \<subseteq> set found"
      proof
        fix m assume "m \<in> set found'"
        then obtain artist_dir albums album_dir files fl where
          a: "(artist_dir, Dir albums) \<in> set artists"
          and s: "similarity ratio (normalize_text artist) (normalize_text artist_dir) \<ge> min_artist_sim'"
          and b: "(album_dir, Dir files) \<in> set albums"
          and c: "fl \<in> fst ` set files"
          and e: "examine_file ratio (normalize_text artist) (normalize_text title) artist_dir
                    (similarity ratio (normalize_text artist) (normalize_text artist_dir))
                    (path_join (path_join path artist_dir) album_dir)
                    min_similarity' min_artist_sim' min_title_sim' fl = Some m"
          unfolding collect_matches_set [OF f'] mem_Collect_eq by blast
        from s le(2) have s': "similarity ratio (normalize_text artist) (normalize_text artist_dir) \<ge> min_artist_sim"
          by simp
        from examine_file_mono [OF le e] a s' b c show "m \<in> set found"
          unfolding collect_matches_set [OF f] mem_Collect_eq by blast
      qed
      then show ?thesis by (simp add: ms ms')
    qed
  qed
  with strict show ?thesis by blast
qed

theorem retrieval_monotone_witness:
  "(0.3 :: real) \<le> 0.75 \<and> (0.2 :: real) \<le> 0.7 \<and> (0.3 :: real) \<le> 0.7
   \<and> find_best_matches seq_ratio (Some demo_library) (cps ''q'') (cps ''xy'') (cps ''/m'') 0.3 0.2 0.3 = Inr [demo_match ''xy.flac'' ''xy'' 1.05 1 False True, demo_match ''xy.mp3'' ''xy'' 1 1 False False, demo_match ''xylive.mp3'' ''xylive'' (11 / 14) (1 / 2) True False]
   \<and> (\<exists>ms'. find_best_matches seq_ratio (Some demo_library) (cps ''q'') (cps ''xy'') (cps ''/m'') 0.75 0.7 0.7 = Inr ms'
           \<and> set ms' \<subseteq> set [demo_match ''xy.flac'' ''xy'' 1.05 1 False True, demo_match ''xy.mp3'' ''xy'' 1 1 False False, demo_match ''xylive.mp3'' ''xylive'' (11 / 14) (1 / 2) True False])"
proof -
  have a: "(0.3 :: real) \<le> 0.75" and b: "(0.2 :: real) \<le> 0.7" and c: "(0.3 :: real) \<le> 0.7"
    by simp_all
  show ?thesis
    using a b c retrieval_monotone [OF a b c demo_xy_loose]
    unfolding demo_xy_loose by simp
qed

end
